theory Spec2Isabelle
  imports Main "HOL-Library.Word"
begin

section \<open>JavaScript strings\<close>

text \<open>
  A JavaScript string is a sequence of UTF-16 code units. The regular expressions of the
  widget carry no \<open>u\<close> flag, so they too work on code units. \<open>js\<close> embeds an ASCII
  literal; code units beyond ASCII are written as numbers.
\<close>

type_synonym jsstring = "16 word list"

definition js :: "string \<Rightarrow> jsstring" where
  "js s = map (\<lambda>c. of_nat (of_char c)) s"

text \<open>A value that is either a string or \<open>undefined\<close> (an absent member of the
  parsed response).\<close>

datatype jsval = Undefined | Str jsstring

text \<open>The line terminators and the white space of ECMAScript: \<open>\s\<close> in a regular
  expression and \<open>String.prototype.trim\<close> both use the union of the two.\<close>

definition isLineTerminator :: "16 word \<Rightarrow> bool" where
  "isLineTerminator c = (c \<in> set [0x000A, 0x000D, 0x2028, 0x2029])"

definition isWhiteSpace :: "16 word \<Rightarrow> bool" where
  "isWhiteSpace c = (c \<in> set [0x0009, 0x000B, 0x000C, 0x0020, 0x00A0, 0x1680,
     0x2000, 0x2001, 0x2002, 0x2003, 0x2004, 0x2005, 0x2006, 0x2007, 0x2008, 0x2009, 0x200A,
     0x202F, 0x205F, 0x3000, 0xFEFF])"

definition isSpace :: "16 word \<Rightarrow> bool" where
  "isSpace c = (isWhiteSpace c \<or> isLineTerminator c)"

definition trim :: "jsstring \<Rightarrow> jsstring" where
  "trim s = rev (dropWhile isSpace (rev (dropWhile isSpace s)))"

text \<open>String conversion inside a template literal.\<close>

fun toString :: "jsval \<Rightarrow> jsstring" where
  "toString Undefined = js ''undefined''"
| "toString (Str s) = s"

text \<open>Substring test, used to state what a rendered string contains.\<close>

fun startsWith :: "jsstring \<Rightarrow> jsstring \<Rightarrow> bool" where
  "startsWith s [] = True"
| "startsWith [] (p # ps) = False"
| "startsWith (c # cs) (p # ps) = (c = p \<and> startsWith cs ps)"

fun contains :: "jsstring \<Rightarrow> jsstring \<Rightarrow> bool" where
  "contains [] p = startsWith [] p"
| "contains (c # cs) p = (startsWith (c # cs) p \<or> contains cs p)"

fun occurrences :: "jsstring \<Rightarrow> jsstring \<Rightarrow> nat" where
  "occurrences [] p = 0"
| "occurrences (c # cs) p = (if startsWith (c # cs) p then 1 else 0) + occurrences cs p"


section \<open>escapeHtml\<close>

text \<open>
  \<^verbatim>\<open>function escapeHtml(text) { const div = document.createElement('div');
    div.textContent = text; return div.innerHTML; }\<close>

  The function is two DOM calls on a fresh element. Setting \<open>textContent\<close> replaces the
  children of the element by one text node holding the string, or by nothing when the
  string is empty or the value is \<open>undefined\<close> (converted to null by the attribute's
  nullable type). Reading \<open>innerHTML\<close> serialises the children; a text node is serialised
  by replacing \<open>&\<close>, the no-break space, \<open><\<close> and \<open>>\<close> by character references, in
  the order of the HTML fragment serialisation algorithm.
\<close>

definition setTextContent :: "jsval \<Rightarrow> jsstring list" where
  "setTextContent v = (case v of Undefined \<Rightarrow> [] | Str s \<Rightarrow> if s = [] then [] else [s])"

definition escapeChar :: "16 word \<Rightarrow> jsstring" where
  "escapeChar c =
     (if c = 0x26 then js ''&amp;''
      else if c = 0xA0 then js ''&nbsp;''
      else if c = 0x3C then js ''&lt;''
      else if c = 0x3E then js ''&gt;''
      else [c])"

definition getInnerHTML :: "jsstring list \<Rightarrow> jsstring" where
  "getInnerHTML textNodes = concat (map (\<lambda>t. concat (map escapeChar t)) textNodes)"

definition escapeHtml :: "jsval \<Rightarrow> jsstring" where
  "escapeHtml text = getInnerHTML (setTextContent text)"

text \<open>
  Reading markup back, the way the HTML parser reads what is assigned to \<open>innerHTML\<close>.
  The input stream is preprocessed first: every CR LF pair becomes one LF, then every
  remaining CR becomes LF. The tokenizer then reads content: a \<open><\<close> opens a tag, so the
  markup is no longer plain text (\<open>None\<close>); a \<open>&\<close> starts a character reference, of which
  only the four that the serialiser writes are decoded, any other use of \<open>&\<close> being
  outside this reader (\<open>None\<close>); a U+0000 is dropped when it reaches the body; every other
  code unit is text. \<open>htmlText\<close> is the text the page shows.
\<close>

fun crlfToLf :: "jsstring \<Rightarrow> jsstring" where
  "crlfToLf (c # d # cs) =
     (if c = 0x0D \<and> d = 0x0A then 0x0A # crlfToLf cs else c # crlfToLf (d # cs))"
| "crlfToLf cs = cs"

definition normalizeNewlines :: "jsstring \<Rightarrow> jsstring" where
  "normalizeNewlines s = map (\<lambda>c. if c = 0x0D then 0x0A else c) (crlfToLf s)"

function charData :: "jsstring \<Rightarrow> jsstring option" where
  "charData [] = Some []"
| "charData (c # cs) =
     (if c = 0x3C then None
      else if c = 0x26 then
        (if startsWith cs (js ''amp;'') then map_option ((#) 0x26) (charData (drop 4 cs))
         else if startsWith cs (js ''nbsp;'') then map_option ((#) 0xA0) (charData (drop 5 cs))
         else if startsWith cs (js ''lt;'') then map_option ((#) 0x3C) (charData (drop 3 cs))
         else if startsWith cs (js ''gt;'') then map_option ((#) 0x3E) (charData (drop 3 cs))
         else None)
      else if c = 0x00 then charData cs
      else map_option ((#) c) (charData cs))"
  by pat_completeness auto
termination
  by (relation "measure length") auto

definition htmlText :: "jsstring \<Rightarrow> jsstring option" where
  "htmlText markup = charData (normalizeNewlines markup)"

text \<open>What the page shows of a text \<open>s\<close> that reached it as character data: \<open>s\<close> with
  its newlines normalised and its U+0000 dropped.\<close>

definition shownText :: "jsstring \<Rightarrow> jsstring" where
  "shownText s = filter (\<lambda>c. c \<noteq> 0x00) (normalizeNewlines s)"


section \<open>Regular expressions\<close>

text \<open>
  The Markdown converter is a chain of \<open>String.prototype.replace\<close> calls with regular
  expression literals. The literals are embedded as syntax trees and run by a backtracking
  matcher that follows the ECMAScript pattern semantics: alternatives are tried left to
  right, a greedy quantifier tries one more iteration before it tries to stop, a lazy one
  the other way round, an iteration that consumes nothing is rejected, and the captures
  of the groups inside a quantified pattern are reset when an iteration begins.
\<close>

datatype regex =
    Empty
  | Chr "16 word"
  | Dot
  | Space
  | Bol
  | Eol
  | Seq regex regex
  | Alt regex regex
  | Star bool regex
  | Group nat regex

text \<open>\<open>Star True r\<close> is \<open>r*\<close>, \<open>Star False r\<close> is \<open>r*?\<close>; \<open>Bol\<close> and \<open>Eol\<close> are
  \<open>^\<close> and \<open>$\<close>; \<open>Space\<close> is \<open>\s\<close>; \<open>Group n r\<close> is the \<open>n\<close>-th capturing group.\<close>

fun lit :: "jsstring \<Rightarrow> regex" where
  "lit [] = Empty"
| "lit [c] = Chr c"
| "lit (c # cs) = Seq (Chr c) (lit cs)"

definition oneOrMore :: "regex \<Rightarrow> regex" where
  "oneOrMore r = Seq r (Star True r)"

record flags =
  multiline :: bool
  dotAll :: bool

definition noFlags :: flags where
  "noFlags = \<lparr>multiline = False, dotAll = False\<rparr>"

text \<open>A matcher state: the input already passed (nearest code unit first), the input
  ahead, and the captures made so far.\<close>

record mstate =
  behind :: jsstring
  rest :: jsstring
  caps :: "(nat \<times> jsstring) list"

definition advance :: "mstate \<Rightarrow> mstate" where
  "advance s = (case rest s of [] \<Rightarrow> s | c # cs \<Rightarrow> s\<lparr>behind := c # behind s, rest := cs\<rparr>)"

definition consumed :: "mstate \<Rightarrow> mstate \<Rightarrow> jsstring" where
  "consumed s s' = take (length (rest s) - length (rest s')) (rest s)"

fun groups :: "regex \<Rightarrow> nat list" where
  "groups (Seq a b) = groups a @ groups b"
| "groups (Alt a b) = groups a @ groups b"
| "groups (Star g r) = groups r"
| "groups (Group n r) = n # groups r"
| "groups _ = []"

text \<open>\<open>ms f r s\<close> lists every way in which \<open>r\<close> matches at \<open>s\<close>, in the order in which
  backtracking finds them; the match that the engine reports is the head of the list.\<close>

function ms :: "flags \<Rightarrow> regex \<Rightarrow> mstate \<Rightarrow> mstate list" where
  "ms f Empty s = [s]"
| "ms f (Chr c) s = (case rest s of [] \<Rightarrow> [] | x # xs \<Rightarrow> if x = c then [advance s] else [])"
| "ms f Dot s = (case rest s of [] \<Rightarrow> []
     | x # xs \<Rightarrow> if dotAll f \<or> \<not> isLineTerminator x then [advance s] else [])"
| "ms f Space s = (case rest s of [] \<Rightarrow> []
     | x # xs \<Rightarrow> if isSpace x then [advance s] else [])"
| "ms f Bol s = (case behind s of [] \<Rightarrow> [s]
     | x # xs \<Rightarrow> if multiline f \<and> isLineTerminator x then [s] else [])"
| "ms f Eol s = (case rest s of [] \<Rightarrow> [s]
     | x # xs \<Rightarrow> if multiline f \<and> isLineTerminator x then [s] else [])"
| "ms f (Seq a b) s = concat (map (ms f b) (ms f a s))"
| "ms f (Alt a b) s = ms f a s @ ms f b s"
| "ms f (Group n r) s = map (\<lambda>s'. s'\<lparr>caps := (n, consumed s s') # caps s'\<rparr>) (ms f r s)"
| "ms f (Star greedy r) s =
     (let s0 = s\<lparr>caps := filter (\<lambda>(k, v). k \<notin> set (groups r)) (caps s)\<rparr>;
          again = concat (map (ms f (Star greedy r))
                    (filter (\<lambda>s'. length (rest s') < length (rest s)) (ms f r s0)))
      in if greedy then again @ [s] else s # again)"
  by pat_completeness auto
termination
  by (relation "inv_image (less_than <*lex*> less_than) (\<lambda>(f, r, s). (size r, length (rest s)))")
    auto

text \<open>The replacement text: literal pieces, \<open>$n\<close> and \<open>$&\<close>.\<close>

datatype piece = Txt jsstring | Cap nat | Whole

fun expand :: "jsstring \<Rightarrow> (nat \<times> jsstring) list \<Rightarrow> piece \<Rightarrow> jsstring" where
  "expand m cs (Txt t) = t"
| "expand m cs (Cap n) = (case map_of cs n of None \<Rightarrow> [] | Some t \<Rightarrow> t)"
| "expand m cs Whole = m"

definition substitution :: "piece list \<Rightarrow> jsstring \<Rightarrow> (nat \<times> jsstring) list \<Rightarrow> jsstring" where
  "substitution tmpl m cs = concat (map (expand m cs) tmpl)"

text \<open>
  \<open>replace\<close> with a global regular expression: the pattern is tried at each position from
  left to right; the text between matches is copied; after an empty match the search
  resumes one code unit further on.
\<close>

function replaceFrom :: "flags \<Rightarrow> regex \<Rightarrow> piece list \<Rightarrow> jsstring \<Rightarrow> jsstring \<Rightarrow> jsstring" where
  "replaceFrom f r tmpl bh rs =
     (case ms f r \<lparr>behind = bh, rest = rs, caps = []\<rparr> of
        [] \<Rightarrow> (case rs of [] \<Rightarrow> [] | c # cs \<Rightarrow> c # replaceFrom f r tmpl (c # bh) cs)
      | s' # _ \<Rightarrow>
          (let n = length rs - length (rest s');
               out = substitution tmpl (take n rs) (caps s')
           in if n = 0
              then (case rs of [] \<Rightarrow> out | c # cs \<Rightarrow> out @ c # replaceFrom f r tmpl (c # bh) cs)
              else out @ replaceFrom f r tmpl (rev (take n rs) @ bh) (drop n rs)))"
  by pat_completeness auto
termination
  by (relation "measure (\<lambda>(f, r, tmpl, bh, rs). length rs)") auto

definition replaceAll :: "flags \<Rightarrow> regex \<Rightarrow> piece list \<Rightarrow> jsstring \<Rightarrow> jsstring" where
  "replaceAll f r tmpl text = replaceFrom f r tmpl [] text"


section \<open>markdownToHtml\<close>

datatype exn = FetchFailed | HttpNotOk | JsonSyntaxError | TypeError

text \<open>
  The nine replacements of the source, innermost first:
  \<^verbatim>\<open>/###\s+(.*?)(\n|$)/g\<close>, \<^verbatim>\<open>/\*\*(.*?)\*\*/g\<close>, \<^verbatim>\<open>/^\*\s+(.*?)(\n|$)/gm\<close>,
  \<^verbatim>\<open>/(<li>.*<\/li>)+/gs\<close>, \<^verbatim>\<open>/\n\n/g\<close>, \<^verbatim>\<open>/\n/g\<close>, \<^verbatim>\<open>/^/g\<close>, \<^verbatim>\<open>/$/g\<close>,
  \<^verbatim>\<open>/<p><\/p>/g\<close>. Calling \<open>replace\<close> on \<open>undefined\<close> throws a TypeError.
\<close>

definition markdownToHtml :: "jsval \<Rightarrow> exn + jsstring" where
  "markdownToHtml v =
    (case v of
       Undefined \<Rightarrow> Inl TypeError
     | Str text \<Rightarrow> Inr
        (replaceAll noFlags (lit (js ''<p></p>'')) []
        (replaceAll noFlags Eol [Txt (js ''</p>'')]
        (replaceAll noFlags Bol [Txt (js ''<p>'')]
        (replaceAll noFlags (Chr 0x0A) [Txt (js ''<br>'')]
        (replaceAll noFlags (lit [0x0A, 0x0A]) [Txt (js ''</p><p>'')]
        (replaceAll (noFlags\<lparr>dotAll := True\<rparr>)
           (oneOrMore (Group 1 (Seq (lit (js ''<li>'')) (Seq (Star True Dot) (lit (js ''</li>''))))))
           [Txt (js ''<ul>''), Whole, Txt (js ''</ul>'')]
        (replaceAll (noFlags\<lparr>multiline := True\<rparr>)
           (Seq Bol (Seq (Chr 0x2A) (Seq (oneOrMore Space)
              (Seq (Group 1 (Star False Dot)) (Group 2 (Alt (Chr 0x0A) Eol))))))
           [Txt (js ''<li>''), Cap 1, Txt (js ''</li>'')]
        (replaceAll noFlags
           (Seq (lit (js ''**'')) (Seq (Group 1 (Star False Dot)) (lit (js ''**''))))
           [Txt (js ''<strong>''), Cap 1, Txt (js ''</strong>'')]
        (replaceAll noFlags
           (Seq (lit (js ''###'')) (Seq (oneOrMore Space)
              (Seq (Group 1 (Star False Dot)) (Group 2 (Alt (Chr 0x0A) Eol)))))
           [Txt (js ''<h3>''), Cap 1, Txt (js ''</h3>'')]
         text))))))))))"


section \<open>The page\<close>

text \<open>
  The repository holds three versions of the widget: \<open>static/app.js\<close>, which escapes every
  message (\<open>Escaping\<close>); the version that converts bot replies from Markdown (\<open>Markdown\<close>);
  and the version that writes markup into the chat box directly and has neither
  \<open>addMessage\<close> nor \<open>try\<close> (\<open>Basic\<close>).
\<close>

datatype variant = Escaping | Markdown | Basic

text \<open>An entry of the \<open>history\<close> array, \<^verbatim>\<open>{ sender, text }\<close>.\<close>

record turn =
  sender :: jsstring
  turnText :: jsval

text \<open>
  What the chat box holds. A message element has a class name and two children; its
  content region was filled either through \<open>textContent\<close> or through \<open>innerHTML\<close>.
  \<open>Markup\<close> is a piece of HTML source added by \<^verbatim>\<open>chatBox.innerHTML += ...\<close>.
\<close>

datatype content = TextContent jsstring | InnerHTML jsstring

datatype child = Avatar jsstring | Content content

datatype node = MessageDiv jsstring "child list" | Markup jsstring

text \<open>
  The state the handlers read and write: the input control, the caption of the submit
  button, the chat box, the \<open>history\<close> array and the console. \<open>inputFocused\<close> says that
  the input control is the focused element. The scroll position is not part of the state.
\<close>

record ui =
  inputValue :: jsstring
  inputDisabled :: bool
  inputFocused :: bool
  buttonText :: jsstring
  chatBox :: "node list"
  history :: "turn list"
  console :: "exn list"

definition botGlyph :: jsstring where
  "botGlyph = [0xD83E, 0xDD16]"

definition userGlyph :: jsstring where
  "userGlyph = [0xD83D, 0xDC64]"

definition appendChild :: "node \<Rightarrow> ui \<Rightarrow> ui" where
  "appendChild n s = s\<lparr>chatBox := chatBox s @ [n]\<rparr>"


section \<open>addMessage\<close>

text \<open>\<open>static/app.js\<close>: \<^verbatim>\<open>content.innerHTML = escapeHtml(text)\<close> for every sender.\<close>

definition addMessage_escaping :: "jsstring \<Rightarrow> jsval \<Rightarrow> ui \<Rightarrow> exn + ui" where
  "addMessage_escaping sndr text s =
     (let avatar = Avatar (if sndr = js ''bot'' then botGlyph else userGlyph);
          content = Content (InnerHTML (escapeHtml text))
      in Inr (appendChild
           (MessageDiv (js ''message '' @ sndr)
              [if sndr = js ''bot'' then avatar else content,
               if sndr = js ''bot'' then content else avatar]) s))"

text \<open>The Markdown version: \<^verbatim>\<open>content.innerHTML = markdownToHtml(text)\<close> for the bot,
  \<^verbatim>\<open>content.textContent = text\<close> for the user. The content is computed before the element
  is attached, so an exception leaves the page as it was.\<close>

definition addMessage_markdown :: "jsstring \<Rightarrow> jsval \<Rightarrow> ui \<Rightarrow> exn + ui" where
  "addMessage_markdown sndr text s =
     (let avatar = Avatar (if sndr = js ''bot'' then botGlyph else userGlyph)
      in if sndr = js ''bot''
         then (case markdownToHtml text of
                 Inl e \<Rightarrow> Inl e
               | Inr html \<Rightarrow>
                   Inr (appendChild (MessageDiv (js ''message '' @ sndr)
                          [avatar, Content (InnerHTML html)]) s))
         else Inr (appendChild (MessageDiv (js ''message '' @ sndr)
                     [Content (TextContent (case text of Undefined \<Rightarrow> [] | Str t \<Rightarrow> t)),
                      avatar]) s))"


section \<open>The submit handler\<close>

text \<open>
  The exchange with the backend as the handler sees it: \<open>fetch\<close> rejects, or it resolves
  with a status (\<open>res.ok\<close>) and a body that \<open>res.json()\<close> either rejects or parses. The
  parsed value is typed as the wire protocol has it,
  \<^verbatim>\<open>{ success: boolean, response?: string, error?: string }\<close>; a parsed value of
  another shape is outside the model. The page is assumed to hold the form with its
  submit button, the input and the chat box, which the scripts look up without a check.
  \<open>e.preventDefault()\<close> acts on the event only and leaves the page state alone.
\<close>

record payload =
  success :: bool
  response :: jsval
  error :: jsval

datatype body = Malformed | Json payload

datatype outcome = Rejected | Responded bool body

record request =
  message :: jsstring
  sentHistory :: "turn list"

text \<open>The local variables that live across the \<open>await\<close>. The basic version has no
  \<open>originalText\<close>; it leaves the field empty and never reads it.\<close>

record locals =
  msgText :: jsstring
  originalText :: jsstring

text \<open>
  The handler is an asynchronous function. Its first part runs up to the call of \<open>fetch\<close>:
  it returns at once (\<open>Returned\<close>), throws (\<open>Failed\<close>), or issues the request and suspends
  (\<open>Awaiting\<close>, with the page as it is at that moment). Its second part runs when the
  exchange has settled.
\<close>

datatype pending = Returned ui | Failed exn ui | Awaiting ui request locals

record result =
  final :: ui
  thrown :: "exn option"

text \<open>Disabling the focused control takes the focus from it; \<open>focus()\<close> gives it to a
  control that is enabled.\<close>

definition setDisabled :: "bool \<Rightarrow> ui \<Rightarrow> ui" where
  "setDisabled d s = s\<lparr>inputDisabled := d, inputFocused := inputFocused s \<and> \<not> d\<rparr>"

definition focus :: "ui \<Rightarrow> ui" where
  "focus s = (if inputDisabled s then s else s\<lparr>inputFocused := True\<rparr>)"

definition cannotConnect :: jsstring where
  "cannotConnect = js ''No se pudo conectar con el servidor. '' @ [0xBF] @ js ''Est'' @ [0xE1]
     @ js '' corriendo tu backend?''"

definition somethingWrong :: jsstring where
  "somethingWrong = js ''Algo sali'' @ [0xF3] @ js '' mal''"

text \<open>\<^verbatim>\<open>data.error || "Algo sali\'o mal"\<close>: the fallback is taken when \<open>error\<close> is absent
  or the empty string.\<close>

definition errorOr :: "jsval \<Rightarrow> jsstring \<Rightarrow> jsstring" where
  "errorOr e d = (case e of Undefined \<Rightarrow> d | Str t \<Rightarrow> if t = [] then d else t)"

text \<open>The handler of \<open>static/app.js\<close> and of the Markdown version (the two are the same
  text); \<open>add\<close> is the \<open>addMessage\<close> of the version.\<close>

definition handlerBegin :: "(jsstring \<Rightarrow> jsval \<Rightarrow> ui \<Rightarrow> exn + ui) \<Rightarrow> ui \<Rightarrow> pending" where
  "handlerBegin add s =
     (let text = trim (inputValue s)
      in if text = [] then Returned s
         else (case add (js ''user'') (Str text) s of
                 Inl e \<Rightarrow> Failed e s
               | Inr s1 \<Rightarrow>
                   (let s2 = setDisabled True (s1\<lparr>inputValue := []\<rparr>);
                        orig = buttonText s2;
                        s3 = s2\<lparr>buttonText := js ''Enviando...''\<rparr>
                    in Awaiting s3 \<lparr>message = text, sentHistory = history s3\<rparr>
                         \<lparr>msgText = text, originalText = orig\<rparr>)))"

definition tryBlock ::
  "(jsstring \<Rightarrow> jsval \<Rightarrow> ui \<Rightarrow> exn + ui) \<Rightarrow> ui \<Rightarrow> jsstring \<Rightarrow> outcome \<Rightarrow> exn + ui" where
  "tryBlock add s text out =
     (case out of
        Rejected \<Rightarrow> Inl FetchFailed
      | Responded ok b \<Rightarrow>
          if \<not> ok then Inl HttpNotOk
          else (case b of
                  Malformed \<Rightarrow> Inl JsonSyntaxError
                | Json data \<Rightarrow>
                    if success data
                    then (case add (js ''bot'') (response data) s of
                            Inl e \<Rightarrow> Inl e
                          | Inr s1 \<Rightarrow>
                              Inr (s1\<lparr>history := history s1
                                     @ [\<lparr>sender = js ''Usuario'', turnText = Str text\<rparr>]
                                     @ [\<lparr>sender = js ''Bot'', turnText = response data\<rparr>]\<rparr>))
                    else add (js ''bot'')
                           (Str (js ''Error: '' @ errorOr (error data) somethingWrong)) s))"

definition catchBlock ::
  "(jsstring \<Rightarrow> jsval \<Rightarrow> ui \<Rightarrow> exn + ui) \<Rightarrow> ui \<Rightarrow> exn \<Rightarrow> exn + ui" where
  "catchBlock add s err =
     (case add (js ''bot'') (Str cannotConnect) s of
        Inl e \<Rightarrow> Inl e
      | Inr s1 \<Rightarrow> Inr (s1\<lparr>console := console s1 @ [err]\<rparr>))"

definition finallyBlock :: "ui \<Rightarrow> jsstring \<Rightarrow> ui" where
  "finallyBlock s orig = focus ((setDisabled False s)\<lparr>buttonText := orig\<rparr>)"

definition handlerResume ::
  "(jsstring \<Rightarrow> jsval \<Rightarrow> ui \<Rightarrow> exn + ui) \<Rightarrow> ui \<Rightarrow> locals \<Rightarrow> outcome \<Rightarrow> result" where
  "handlerResume add s l out =
     (case tryBlock add s (msgText l) out of
        Inr s1 \<Rightarrow> \<lparr>final = finallyBlock s1 (originalText l), thrown = None\<rparr>
      | Inl err \<Rightarrow>
          (case catchBlock add s err of
             Inr s1 \<Rightarrow> \<lparr>final = finallyBlock s1 (originalText l), thrown = None\<rparr>
           | Inl e \<Rightarrow> \<lparr>final = finallyBlock s (originalText l), thrown = Some e\<rparr>))"

text \<open>The handler of the basic version: no \<open>try\<close>, no test of \<open>res.ok\<close>; the input is
  cleared by the last statements.\<close>

definition basicBegin :: "ui \<Rightarrow> pending" where
  "basicBegin s =
     (let text = trim (inputValue s)
      in if text = [] then Returned s
         else (let s1 = appendChild
                     (Markup (js ''<div><strong>T'' @ [0xFA] @ js '':</strong> '' @ text
                        @ js ''</div>'')) s
               in Awaiting s1 \<lparr>message = text, sentHistory = history s1\<rparr>
                    \<lparr>msgText = text, originalText = []\<rparr>))"

definition basicResume :: "ui \<Rightarrow> locals \<Rightarrow> outcome \<Rightarrow> result" where
  "basicResume s l out =
     (case out of
        Rejected \<Rightarrow> \<lparr>final = s, thrown = Some FetchFailed\<rparr>
      | Responded ok b \<Rightarrow>
          (case b of
             Malformed \<Rightarrow> \<lparr>final = s, thrown = Some JsonSyntaxError\<rparr>
           | Json data \<Rightarrow>
               (let s1 =
                  (if success data
                   then (appendChild
                          (Markup (js ''<div><strong>Bot:</strong> '' @ toString (response data)
                             @ js ''</div>'')) s)
                        \<lparr>history := history s
                           @ [\<lparr>sender = js ''Usuario'', turnText = Str (msgText l)\<rparr>]
                           @ [\<lparr>sender = js ''Bot'', turnText = response data\<rparr>]\<rparr>
                   else appendChild
                          (Markup (js ''<div style='' @ [0x22] @ js ''color:red;'' @ [0x22]
                             @ js ''>Error: '' @ toString (error data) @ js ''</div>'')) s)
                in \<lparr>final = s1\<lparr>inputValue := []\<rparr>, thrown = None\<rparr>)))"

definition submitBegin :: "variant \<Rightarrow> ui \<Rightarrow> pending" where
  "submitBegin v s =
     (case v of
        Escaping \<Rightarrow> handlerBegin addMessage_escaping s
      | Markdown \<Rightarrow> handlerBegin addMessage_markdown s
      | Basic \<Rightarrow> basicBegin s)"

definition submitResume :: "variant \<Rightarrow> ui \<Rightarrow> locals \<Rightarrow> outcome \<Rightarrow> result" where
  "submitResume v s l out =
     (case v of
        Escaping \<Rightarrow> handlerResume addMessage_escaping s l out
      | Markdown \<Rightarrow> handlerResume addMessage_markdown s l out
      | Basic \<Rightarrow> basicResume s l out)"

text \<open>One submit event with nothing else happening before its exchange settles.\<close>

definition submit :: "variant \<Rightarrow> ui \<Rightarrow> outcome \<Rightarrow> result" where
  "submit v s out =
     (case submitBegin v s of
        Returned s1 \<Rightarrow> \<lparr>final = s1, thrown = None\<rparr>
      | Failed e s1 \<Rightarrow> \<lparr>final = s1, thrown = Some e\<rparr>
      | Awaiting s1 req l \<Rightarrow> submitResume v s1 l out)"

text \<open>The page at the moment the request is issued, and the request.\<close>

fun atRequest :: "pending \<Rightarrow> (ui \<times> request) option" where
  "atRequest (Awaiting s req l) = Some (s, req)"
| "atRequest _ = None"


text \<open>How each version renders the user's text \<open>t\<close>.\<close>

fun userNode :: "variant \<Rightarrow> jsstring \<Rightarrow> node" where
  "userNode Escaping t =
     MessageDiv (js ''message user'') [Content (InnerHTML (escapeHtml (Str t))), Avatar userGlyph]"
| "userNode Markdown t =
     MessageDiv (js ''message user'') [Content (TextContent t), Avatar userGlyph]"
| "userNode Basic t =
     Markup (js ''<div><strong>T'' @ [0xFA] @ js '':</strong> '' @ t @ js ''</div>'')"

text \<open>
  A failed exchange, read from the backend's side: no response at all, a status outside
  2xx, a body that is not JSON, or a success flag that is false.
\<close>

fun exchangeFailed :: "outcome \<Rightarrow> bool" where
  "exchangeFailed Rejected = True"
| "exchangeFailed (Responded ok b) =
     (\<not> ok \<or> (case b of Malformed \<Rightarrow> True | Json d \<Rightarrow> \<not> success d))"

text \<open>The same, read from the handler's side: the status counts only in the versions
  that test \<open>res.ok\<close>.\<close>

fun handlerFails :: "variant \<Rightarrow> outcome \<Rightarrow> bool" where
  "handlerFails v Rejected = True"
| "handlerFails v (Responded ok b) =
     ((v \<noteq> Basic \<and> \<not> ok) \<or> (case b of Malformed \<Rightarrow> True | Json d \<Rightarrow> \<not> success d))"


text \<open>An \<open>addMessage\<close> changes the page by appending one node to the chat box and in
  no other way.\<close>

definition rendersOnly :: "(jsstring \<Rightarrow> jsval \<Rightarrow> ui \<Rightarrow> exn + ui) \<Rightarrow> bool" where
  "rendersOnly add = (\<forall>sndr text s s1. add sndr text s = Inr s1 \<longrightarrow>
     (\<exists>n. s1 = appendChild n s))"


section \<open>Reachable states\<close>

text \<open>
  The page together with the handlers that are suspended at their \<open>await\<close>. The page is
  loaded with an empty history and an empty chat box; the user edits the input and moves
  the focus; a submit event runs the first part of the handler; any suspended handler
  may be resumed with any outcome.
\<close>

inductive reachable :: "variant \<Rightarrow> ui \<Rightarrow> locals list \<Rightarrow> bool" for v :: variant where
  loaded: "history s = [] \<Longrightarrow> chatBox s = [] \<Longrightarrow> reachable v s []"
| typing: "reachable v s ps \<Longrightarrow> reachable v (s\<lparr>inputValue := t\<rparr>) ps"
| focusing: "reachable v s ps \<Longrightarrow> reachable v (s\<lparr>inputFocused := b\<rparr>) ps"
| returned: "reachable v s ps \<Longrightarrow> submitBegin v s = Returned s1 \<Longrightarrow> reachable v s1 ps"
| failed: "reachable v s ps \<Longrightarrow> submitBegin v s = Failed e s1 \<Longrightarrow> reachable v s1 ps"
| requested: "reachable v s ps \<Longrightarrow> submitBegin v s = Awaiting s1 req l
    \<Longrightarrow> reachable v s1 (ps @ [l])"
| settled: "reachable v s ps \<Longrightarrow> i < length ps
    \<Longrightarrow> reachable v (final (submitResume v s (ps ! i) out)) (take i ps @ drop (Suc i) ps)"


section \<open>Example inputs\<close>

text \<open>The page as loaded, with \<open>t\<close> typed into the input and the focus on the submit
  button (the user has clicked it).\<close>

definition typed :: "jsstring \<Rightarrow> ui" where
  "typed t = \<lparr>inputValue = t, inputDisabled = False, inputFocused = False,
     buttonText = js ''Enviar'', chatBox = [], history = [], console = []\<rparr>"

definition okPayload :: payload where
  "okPayload = \<lparr>success = True, response = Str (js ''ok''), error = Undefined\<rparr>"



section \<open>Escaping\<close>

lemma escapeHtml_Str: "escapeHtml (Str s) = concat (map escapeChar s)"
  by (simp add: escapeHtml_def getInnerHTML_def setTextContent_def)

lemma escapeChar_CR: "escapeChar 0x0D = [0x0D]"
  by (simp add: escapeChar_def)

lemma escapeChar_LF: "escapeChar 0x0A = [0x0A]"
  by (simp add: escapeChar_def)

lemma crlfToLf_Cons: "c \<noteq> 0x0D \<Longrightarrow> crlfToLf (c # t) = c # crlfToLf t"
  by (cases t) simp_all

lemma crlfToLf_CR: "hd (t @ [0x00]) \<noteq> 0x0A \<Longrightarrow> crlfToLf (0x0D # t) = 0x0D # crlfToLf t"
  by (cases t) simp_all

lemma crlfToLf_plain: "0x0D \<notin> set e \<Longrightarrow> crlfToLf (e @ t) = e @ crlfToLf t"
  by (induction e) (simp_all add: crlfToLf_Cons)

lemma crlfToLf_escapeChar:
  "c \<noteq> 0x0D \<Longrightarrow> crlfToLf (escapeChar c @ t) = escapeChar c @ crlfToLf t"
  by (rule crlfToLf_plain) (simp add: escapeChar_def js_def)

lemma hd_escapeChar: "d \<noteq> 0x0A \<Longrightarrow> hd (escapeChar d @ t) \<noteq> 0x0A"
  by (simp add: escapeChar_def js_def)

lemma crlfToLf_escapeChar1: "crlfToLf (escapeChar v) = escapeChar v"
  using crlfToLf_plain [of "escapeChar v" "[]"]
  by (cases "v = 0x0D") (simp_all add: escapeChar_CR, simp add: escapeChar_def js_def)

lemma crlfToLf_escaped:
  "crlfToLf (concat (map escapeChar s)) = concat (map escapeChar (crlfToLf s))"
proof (induction s rule: crlfToLf.induct)
  case (1 c d cs)
  show ?case
  proof (cases "c = 0x0D")
    case True
    show ?thesis
    proof (cases "d = 0x0A")
      case dLF: True
      then show ?thesis using True 1 by (simp add: escapeChar_CR escapeChar_LF)
    next
      case dn: False
      have "hd ((escapeChar d @ concat (map escapeChar cs)) @ [0x00]) \<noteq> 0x0A"
        using dn by (simp add: escapeChar_def js_def)
      then have "crlfToLf (0x0D # escapeChar d @ concat (map escapeChar cs))
          = 0x0D # crlfToLf (escapeChar d @ concat (map escapeChar cs))"
        by (rule crlfToLf_CR)
      then show ?thesis using True dn 1 by (simp add: escapeChar_CR)
    qed
  next
    case False
    then show ?thesis
      using 1 crlfToLf_escapeChar [OF False, of "concat (map escapeChar (d # cs))"] by simp
  qed
qed (simp_all add: crlfToLf_escapeChar1)

lemma map_CR_escaped:
  "map (\<lambda>c. if c = 0x0D then 0x0A else c) (concat (map escapeChar s))
     = concat (map escapeChar (map (\<lambda>c. if c = 0x0D then 0x0A else c) s))"
  by (induction s) (simp_all add: escapeChar_def js_def)

lemma normalizeNewlines_escaped:
  "normalizeNewlines (concat (map escapeChar s)) = concat (map escapeChar (normalizeNewlines s))"
  by (simp add: normalizeNewlines_def crlfToLf_escaped map_CR_escaped)

lemma charData_escapeChar:
  "charData (escapeChar c @ r) = (if c = 0x00 then charData r else map_option ((#) c) (charData r))"
  by (simp add: escapeChar_def js_def)

lemma charData_escaped: "charData (concat (map escapeChar s)) = Some (filter (\<lambda>c. c \<noteq> 0x00) s)"
  by (induction s) (simp_all add: charData_escapeChar)

lemma htmlText_escapeHtml: "htmlText (escapeHtml (Str s)) = Some (shownText s)"
  by (simp add: htmlText_def escapeHtml_Str normalizeNewlines_escaped charData_escaped shownText_def)








section \<open>The Markdown converter on examples\<close>

lemma markdown_example_output:
  "markdownToHtml (Str (js ''### Title'' @ [0x0A] @ js ''**bold** text'' @ [0x0A]
      @ js ''* item1'' @ [0x0A] @ js ''* item2''))
   = Inr (js ''<p><h3>Title</h3><strong>bold</strong> text<br><ul><li>item1</li><li>item2</li></ul></p>'')"
  by code_simp

text \<open>
  C6. On \<^verbatim>\<open>"### Title\n**bold** text\n* item1\n* item2"\<close> the converter returns
  \<^verbatim>\<open><p><h3>Title</h3><strong>bold</strong> text<br><ul><li>item1</li><li>item2</li></ul></p>\<close>:
  one \<open>ul\<close> block holding the two items and nothing else, the heading, the bold
  element, paragraph tags around the whole, and no empty paragraph.
\<close>

theorem markdown_example:
  "case markdownToHtml (Str (js ''### Title'' @ [0x0A] @ js ''**bold** text'' @ [0x0A]
      @ js ''* item1'' @ [0x0A] @ js ''* item2'')) of
     Inl e \<Rightarrow> False
   | Inr html \<Rightarrow>
       html = js ''<p><h3>Title</h3><strong>bold</strong> text<br><ul><li>item1</li><li>item2</li></ul></p>''
       \<and> occurrences html (js ''<ul>'') = 1
       \<and> occurrences html (js ''</ul>'') = 1
       \<and> occurrences html (js ''<ul><li>item1</li><li>item2</li></ul>'') = 1
       \<and> occurrences html (js ''<li>'') = 2
       \<and> occurrences html (js ''<h3>Title</h3>'') = 1
       \<and> occurrences html (js ''<strong>bold</strong>'') = 1
       \<and> startsWith html (js ''<p>'')
       \<and> startsWith (rev html) (rev (js ''</p>''))
       \<and> \<not> contains html (js ''<p></p>'')"
  unfolding markdown_example_output by (simp add: js_def)

lemma markdown_img_output:
  "markdownToHtml (Str (js ''<img src=x onerror=alert(1)>''))
     = Inr (js ''<p><img src=x onerror=alert(1)></p>'')"
  by code_simp

lemma escaping_path_img:
  "addMessage_escaping (js ''bot'') (Str (js ''<img src=x onerror=alert(1)>'')) s
     = Inr (appendChild (MessageDiv (js ''message bot'')
         [Avatar botGlyph, Content (InnerHTML (js ''&lt;img src=x onerror=alert(1)&gt;''))]) s)"
  by (simp add: addMessage_escaping_def escapeHtml_Str escapeChar_def js_def)

text \<open>
  C1. The reply \<^verbatim>\<open><img src=x onerror=alert(1)>\<close> for a bot turn: the Markdown version
  assigns \<^verbatim>\<open><p><img src=x onerror=alert(1)></p>\<close> to \<open>innerHTML\<close>. The tag is in the
  assigned markup as it came, so the markup is not character data.
\<close>

theorem markdown_path_img_live:
  "addMessage_markdown (js ''bot'') (Str (js ''<img src=x onerror=alert(1)>'')) s
     = Inr (appendChild (MessageDiv (js ''message bot'')
         [Avatar botGlyph, Content (InnerHTML (js ''<p><img src=x onerror=alert(1)></p>''))]) s)
   \<and> contains (js ''<p><img src=x onerror=alert(1)></p>'') (js ''<img'')
   \<and> htmlText (js ''<p><img src=x onerror=alert(1)></p>'') = None"
  by (simp add: addMessage_markdown_def markdown_img_output)
     (simp add: js_def htmlText_def normalizeNewlines_def)


section \<open>addMessage and the first part of the handler\<close>

lemma markdownToHtml_Str: "\<exists>h. markdownToHtml (Str t) = Inr h"
  by (simp add: markdownToHtml_def)

lemma message_user: "js ''message '' @ js ''user'' = js ''message user''"
  by (simp add: js_def)

lemma message_bot: "js ''message '' @ js ''bot'' = js ''message bot''"
  by (simp add: js_def)

lemma user_neq_bot: "js ''user'' \<noteq> js ''bot''"
  by (simp add: js_def)

lemma addMessage_escaping_eq:
  "addMessage_escaping sndr text s = Inr (appendChild
           (MessageDiv (js ''message '' @ sndr)
              (if sndr = js ''bot'' then [Avatar botGlyph, Content (InnerHTML (escapeHtml text))]
               else [Content (InnerHTML (escapeHtml text)), Avatar userGlyph])) s)"
  by (simp add: addMessage_escaping_def Let_def)

lemma addMessage_markdown_user:
  "addMessage_markdown (js ''user'') (Str t) s =
     Inr (appendChild (MessageDiv (js ''message user'') [Content (TextContent t), Avatar userGlyph]) s)"
  using user_neq_bot by (simp add: addMessage_markdown_def Let_def message_user)

lemma addMessage_markdown_bot:
  "addMessage_markdown (js ''bot'') (Str t) s =
     (case markdownToHtml (Str t) of Inl e \<Rightarrow> Inl e | Inr h \<Rightarrow>
     Inr (appendChild (MessageDiv (js ''message bot'') [Avatar botGlyph, Content (InnerHTML h)]) s))"
  by (simp add: addMessage_markdown_def Let_def message_bot split: sum.splits)

lemma submitBegin_nonempty:
  assumes "trim (inputValue s) \<noteq> []"
  shows "submitBegin v s =
    (if v = Basic
     then Awaiting (appendChild (userNode v (trim (inputValue s))) s)
            \<lparr>message = trim (inputValue s), sentHistory = history s\<rparr>
            \<lparr>msgText = trim (inputValue s), originalText = []\<rparr>
     else Awaiting ((appendChild (userNode v (trim (inputValue s))) s)
              \<lparr>inputValue := [], inputDisabled := True, inputFocused := False,
                buttonText := js ''Enviando...''\<rparr>)
            \<lparr>message = trim (inputValue s), sentHistory = history s\<rparr>
            \<lparr>msgText = trim (inputValue s), originalText = buttonText s\<rparr>)"
  using assms user_neq_bot
  by (cases v)
     (simp_all add: submitBegin_def handlerBegin_def basicBegin_def Let_def setDisabled_def
        addMessage_escaping_eq addMessage_markdown_user appendChild_def message_user)

lemma submitBegin_empty:
  assumes "trim (inputValue s) = []"
  shows "submitBegin v s = Returned s"
  using assms by (cases v) (simp_all add: submitBegin_def handlerBegin_def basicBegin_def)

lemma submit_nonempty:
  "trim (inputValue s) \<noteq> [] \<Longrightarrow>
   submit v s out =
    (if v = Basic
     then submitResume v (appendChild (userNode v (trim (inputValue s))) s)
            \<lparr>msgText = trim (inputValue s), originalText = []\<rparr> out
     else submitResume v ((appendChild (userNode v (trim (inputValue s))) s)
              \<lparr>inputValue := [], inputDisabled := True, inputFocused := False,
                buttonText := js ''Enviando...''\<rparr>)
            \<lparr>msgText = trim (inputValue s), originalText = buttonText s\<rparr> out)"
  by (simp add: submit_def submitBegin_nonempty)

lemma submitBegin_history:
  "submitBegin v s = Returned s1 \<or> submitBegin v s = Failed e s1 \<or> submitBegin v s = Awaiting s1 req l
   \<Longrightarrow> history s1 = history s"
  by (cases "trim (inputValue s) = []")
     (auto simp: submitBegin_empty submitBegin_nonempty appendChild_def split: if_splits)


lemma trim_plain: "trim (js ''hola'') = js ''hola''"
  by (simp add: trim_def js_def isSpace_def isWhiteSpace_def isLineTerminator_def)

lemma trim_blank: "trim [0x20, 0x09, 0x0A, 0xA0] = []"
  by (simp add: trim_def isSpace_def isWhiteSpace_def isLineTerminator_def)

lemma trim_img: "trim (js ''<img src=x onerror=alert(1)>'') = js ''<img src=x onerror=alert(1)>''"
  by (simp add: trim_def js_def isSpace_def isWhiteSpace_def isLineTerminator_def)

lemma hola_nonempty: "js ''hola'' \<noteq> []"
  by (simp add: js_def)



text \<open>
  C2. In the basic version the user's text goes into the markup of the chat box as it was
  typed: for \<^verbatim>\<open><img src=x onerror=alert(1)>\<close> the page, at the moment the request is
  issued, holds the tag itself.
\<close>

theorem basic_user_markup_live:
  "map_option (chatBox \<circ> fst)
     (atRequest (submitBegin Basic (typed (js ''<img src=x onerror=alert(1)>''))))
     = Some [Markup (js ''<div><strong>T'' @ [0xFA]
               @ js '':</strong> <img src=x onerror=alert(1)></div>'')]
   \<and> contains (js ''<div><strong>T'' @ [0xFA]
               @ js '':</strong> <img src=x onerror=alert(1)></div>'') (js ''<img'')"
proof -
  have ne: "js ''<img src=x onerror=alert(1)>'' \<noteq> []"
    by (simp add: js_def)
  show ?thesis
    using ne by (simp add: submitBegin_nonempty typed_def trim_img appendChild_def) (simp add: js_def)
qed

text \<open>The other two versions keep the user's text inert: it is assigned as text content,
  or as markup that reads back as text, namely that text as the page shows it.\<close>

lemma user_text_inert:
  assumes "trim (inputValue s) \<noteq> []" and "v \<noteq> Basic"
  shows "\<exists>s1 req l c. submitBegin v s = Awaiting s1 req l
     \<and> chatBox s1 = chatBox s @ [MessageDiv (js ''message user'') [Content c, Avatar userGlyph]]
     \<and> (c = TextContent (trim (inputValue s))
        \<or> (\<exists>m. c = InnerHTML m \<and> htmlText m = Some (shownText (trim (inputValue s)))))"
  using assms htmlText_escapeHtml [of "trim (inputValue s)"]
  by (cases v) (simp_all add: submitBegin_nonempty appendChild_def)

text \<open>
  C8. With non-empty trimmed text every version suspends at the request with the user's
  bubble already appended to the chat box, and the request carries the trimmed text and
  the history. In \<open>static/app.js\<close> and the Markdown version the input is empty at that
  moment. In the basic version the input still holds what was typed; it is emptied by
  the second part of the handler when that part ends without throwing.
\<close>

theorem echo_before_request:
  assumes "trim (inputValue s) \<noteq> []"
  shows "\<exists>s1 req l. submitBegin v s = Awaiting s1 req l
     \<and> message req = trim (inputValue s)
     \<and> sentHistory req = history s
     \<and> chatBox s1 = chatBox s @ [userNode v (trim (inputValue s))]
     \<and> (if v = Basic
        then inputValue s1 = inputValue s
           \<and> (\<forall>out. thrown (submitResume v s1 l out) = None
                 \<longrightarrow> inputValue (final (submitResume v s1 l out)) = [])
        else inputValue s1 = [])"
proof (cases "v = Basic")
  case True
  have "thrown (basicResume s1 l out) = None \<Longrightarrow> inputValue (final (basicResume s1 l out)) = []"
    for s1 l out
    by (simp add: basicResume_def appendChild_def Let_def split: outcome.splits body.splits)
  then show ?thesis
    using assms True by (simp add: submitBegin_nonempty appendChild_def submitResume_def)
next
  case False
  then show ?thesis
    using assms by (simp add: submitBegin_nonempty appendChild_def)
qed

theorem echo_before_request_witness:
  "trim (inputValue (typed (js ''hola''))) \<noteq> []
   \<and> (\<exists>s1 req l. submitBegin Markdown (typed (js ''hola'')) = Awaiting s1 req l
        \<and> message req = js ''hola'' \<and> sentHistory req = []
        \<and> chatBox s1 = [MessageDiv (js ''message user'')
             [Content (TextContent (js ''hola'')), Avatar userGlyph]]
        \<and> inputValue s1 = [])"
  using echo_before_request [of "typed (js ''hola'')" Markdown] hola_nonempty
  by (simp add: typed_def trim_plain)

text \<open>The claim as stated fails in the basic version: when the request is issued the
  input still holds \<open>hola\<close>.\<close>

theorem basic_clears_late_counterexample:
  "trim (inputValue (typed (js ''hola''))) \<noteq> []
   \<and> map_option (inputValue \<circ> fst) (atRequest (submitBegin Basic (typed (js ''hola''))))
       = Some (js ''hola'')
   \<and> map_option (inputValue \<circ> fst) (atRequest (submitBegin Basic (typed (js ''hola''))))
       \<noteq> Some []"
  using hola_nonempty
  by (simp add: submitBegin_nonempty typed_def trim_plain appendChild_def)

text \<open>
  C9. When the input trims to the empty string the handler returns before it renders
  anything or issues a request, and the page (chat box, history, input, button caption,
  console) is exactly as before, whatever the backend would have answered.
\<close>

theorem empty_submit_noop:
  assumes "trim (inputValue s) = []"
  shows "submitBegin v s = Returned s \<and> submit v s out = \<lparr>final = s, thrown = None\<rparr>"
  using assms by (simp add: submit_def submitBegin_empty)

theorem empty_submit_noop_witness:
  "trim (inputValue (typed [0x20, 0x09, 0x0A, 0xA0])) = []
   \<and> submitBegin Escaping (typed [0x20, 0x09, 0x0A, 0xA0]) = Returned (typed [0x20, 0x09, 0x0A, 0xA0])
   \<and> submit Escaping (typed [0x20, 0x09, 0x0A, 0xA0]) Rejected
       = \<lparr>final = typed [0x20, 0x09, 0x0A, 0xA0], thrown = None\<rparr>"
  using empty_submit_noop [of "typed [0x20, 0x09, 0x0A, 0xA0]" Escaping Rejected] trim_blank
  by (simp add: typed_def)


section \<open>The history array\<close>

lemma addMessage_markdown_bot_Str:
  "\<exists>h. addMessage_markdown (js ''bot'') (Str t) s =
     Inr (appendChild (MessageDiv (js ''message bot'') [Avatar botGlyph, Content (InnerHTML h)]) s)"
  using markdownToHtml_Str [of t] by (auto simp: addMessage_markdown_bot)

lemma history_appendChild: "history (appendChild n s) = history s"
  by (simp add: appendChild_def)

lemma history_finallyBlock: "history (finallyBlock s orig) = history s"
  by (simp add: finallyBlock_def focus_def setDisabled_def)

lemma rendersOnly_escaping: "rendersOnly addMessage_escaping"
  by (auto simp: rendersOnly_def addMessage_escaping_eq)

lemma rendersOnly_markdown: "rendersOnly addMessage_markdown"
  by (auto simp: rendersOnly_def addMessage_markdown_def Let_def split: sum.splits if_splits)

lemma rendersOnlyD: "rendersOnly add \<Longrightarrow> add sndr text s = Inr s1 \<Longrightarrow> \<exists>n. s1 = appendChild n s"
  by (auto simp: rendersOnly_def)

lemma catchBlock_history:
  "rendersOnly add \<Longrightarrow> catchBlock add s err = Inr s1 \<Longrightarrow> history s1 = history s"
  by (auto simp: catchBlock_def appendChild_def split: sum.splits dest!: rendersOnlyD)

lemma tryBlock_history:
  assumes "rendersOnly add" and "tryBlock add s text out = Inr s1"
  shows "history s1 = history s \<or>
     (\<exists>d. out = Responded True (Json d) \<and> success d \<and>
        history s1 = history s @ [\<lparr>sender = js ''Usuario'', turnText = Str text\<rparr>,
                                  \<lparr>sender = js ''Bot'', turnText = response d\<rparr>])"
  using assms
  by (auto simp: tryBlock_def appendChild_def
      split: outcome.splits body.splits if_splits sum.splits dest!: rendersOnlyD)

lemma handlerResume_history:
  assumes "rendersOnly add"
  shows "history (final (handlerResume add s l out)) = history s \<or>
     (\<exists>d. out = Responded True (Json d) \<and> success d \<and>
        history (final (handlerResume add s l out)) =
          history s @ [\<lparr>sender = js ''Usuario'', turnText = Str (msgText l)\<rparr>,
                       \<lparr>sender = js ''Bot'', turnText = response d\<rparr>])"
proof (cases "tryBlock add s (msgText l) out")
  case (Inr s1)
  then show ?thesis
    using tryBlock_history [OF assms Inr] by (simp add: handlerResume_def history_finallyBlock)
next
  case (Inl err)
  then show ?thesis
    using catchBlock_history [OF assms]
    by (auto simp: handlerResume_def history_finallyBlock split: sum.splits)
qed

lemma basicResume_history:
  "history (final (basicResume s l out)) = history s \<or>
     (\<exists>d ok. out = Responded ok (Json d) \<and> success d \<and>
        history (final (basicResume s l out)) =
          history s @ [\<lparr>sender = js ''Usuario'', turnText = Str (msgText l)\<rparr>,
                       \<lparr>sender = js ''Bot'', turnText = response d\<rparr>])"
  by (auto simp: basicResume_def appendChild_def Let_def split: outcome.splits body.splits)

text \<open>The second part of a handler leaves the history alone or appends one pair.\<close>

lemma submitResume_history:
  "history (final (submitResume v s l out)) = history s \<or>
     (\<exists>d ok. out = Responded ok (Json d) \<and> success d \<and> (v \<noteq> Basic \<longrightarrow> ok) \<and>
        history (final (submitResume v s l out)) =
          history s @ [\<lparr>sender = js ''Usuario'', turnText = Str (msgText l)\<rparr>,
                       \<lparr>sender = js ''Bot'', turnText = response d\<rparr>])"
proof (cases v)
  case Escaping
  then show ?thesis
    using handlerResume_history [OF rendersOnly_escaping, of s l out]
    by (auto simp: submitResume_def)
next
  case Markdown
  then show ?thesis
    using handlerResume_history [OF rendersOnly_markdown, of s l out]
    by (auto simp: submitResume_def)
next
  case Basic
  then show ?thesis
    using basicResume_history [of s l out] by (auto simp: submitResume_def)
qed

lemma submit_history:
  "history (final (submit v s out)) = history s \<or>
     (\<exists>d ok. out = Responded ok (Json d) \<and> success d \<and> (v \<noteq> Basic \<longrightarrow> ok) \<and>
        history (final (submit v s out)) =
          history s @ [\<lparr>sender = js ''Usuario'', turnText = Str (trim (inputValue s))\<rparr>,
                       \<lparr>sender = js ''Bot'', turnText = response d\<rparr>])"
proof (cases "trim (inputValue s) = []")
  case True
  then show ?thesis by (simp add: submit_def submitBegin_empty)
next
  case False
  obtain s1 req l where b: "submitBegin v s = Awaiting s1 req l"
    and l: "msgText l = trim (inputValue s)"
    using submitBegin_nonempty [OF False, of v] by (cases "v = Basic") simp_all
  have "history s1 = history s"
    using submitBegin_history [of v s s1 undefined req l] b by simp
  then show ?thesis
    using submitResume_history [of v s1 l out] b l by (simp add: submit_def)
qed

lemma submit_success:
  assumes "trim (inputValue s) \<noteq> []" and "v = Basic \<or> ok"
    and "success d" and "response d = Str r"
  shows "history (final (submit v s (Responded ok (Json d)))) =
           history s @ [\<lparr>sender = js ''Usuario'', turnText = Str (trim (inputValue s))\<rparr>,
                        \<lparr>sender = js ''Bot'', turnText = Str r\<rparr>]"
proof (cases v)
  case Escaping
  then show ?thesis
    using assms
    by (simp add: submit_nonempty submitResume_def handlerResume_def
        tryBlock_def addMessage_escaping_eq history_finallyBlock appendChild_def)
next
  case Markdown
  obtain h where h: "markdownToHtml (Str r) = Inr h"
    using markdownToHtml_Str by blast
  from Markdown show ?thesis
    using assms h
    by (simp add: submit_nonempty submitResume_def handlerResume_def
        tryBlock_def addMessage_markdown_bot history_finallyBlock appendChild_def)
next
  case Basic
  then show ?thesis
    using assms
    by (simp add: submit_nonempty submitResume_def basicResume_def appendChild_def Let_def)
qed




text \<open>
  C4. When the handler's exchange fails (no response, a body that is not JSON, a success
  flag that is false, or, in the two versions that test \<open>res.ok\<close>, a status outside 2xx)
  the history after the handler is the history before the submit.
\<close>

theorem failure_keeps_history:
  assumes "handlerFails v out"
  shows "history (final (submit v s out)) = history s"
  using submit_history [of v s out] assms by (auto split: body.splits)

theorem failure_keeps_history_witness:
  "handlerFails Markdown (Responded False (Json okPayload))
   \<and> history (final (submit Markdown (typed (js ''hola'')) (Responded False (Json okPayload)))) = []"
  using failure_keeps_history [of Markdown "Responded False (Json okPayload)" "typed (js ''hola'')"]
  by (simp add: typed_def)

text \<open>The claim as stated counts every status outside 2xx as a failure. The basic version
  does not test the status: a response with such a status whose body parses with the
  success flag set appends the two entries.\<close>

theorem basic_ignores_status_counterexample:
  "exchangeFailed (Responded False (Json okPayload))
   \<and> history (final (submit Basic (typed (js ''hola'')) (Responded False (Json okPayload))))
       = history (typed (js ''hola'')) @
         [\<lparr>sender = js ''Usuario'', turnText = Str (js ''hola'')\<rparr>,
          \<lparr>sender = js ''Bot'', turnText = Str (js ''ok'')\<rparr>]
   \<and> history (final (submit Basic (typed (js ''hola'')) (Responded False (Json okPayload))))
       \<noteq> history (typed (js ''hola''))"
  using hola_nonempty
  by (simp add: submit_nonempty typed_def trim_plain submitResume_def basicResume_def
      okPayload_def appendChild_def Let_def)


section \<open>The input control after the exchange\<close>

lemma finallyBlock_fields:
  "inputDisabled (finallyBlock s orig) = False"
  "inputFocused (finallyBlock s orig) = True"
  "buttonText (finallyBlock s orig) = orig"
  by (simp_all add: finallyBlock_def focus_def setDisabled_def)

lemma handlerResume_final:
  "\<exists>x. final (handlerResume add s l out) = finallyBlock x (originalText l)"
  by (auto simp: handlerResume_def split: sum.splits)

lemma handlerResume_fields:
  "inputDisabled (final (handlerResume add s l out)) = False"
  "inputFocused (final (handlerResume add s l out)) = True"
  "buttonText (final (handlerResume add s l out)) = originalText l"
  using handlerResume_final [of add s l out] by (auto simp: finallyBlock_fields)

lemma basicResume_frame:
  "inputDisabled (final (basicResume s l out)) = inputDisabled s
   \<and> inputFocused (final (basicResume s l out)) = inputFocused s
   \<and> buttonText (final (basicResume s l out)) = buttonText s"
  by (simp add: basicResume_def appendChild_def Let_def split: outcome.splits body.splits)

text \<open>
  C7. After a submit with non-empty trimmed text, whatever the outcome, the button has
  the caption it had before the submit. In \<open>static/app.js\<close> and the Markdown version the
  input is then enabled and focused. The basic version never touches the enabled state
  or the focus: both are what they were before the submit.
\<close>

theorem restored_after_exchange:
  assumes "trim (inputValue s) \<noteq> []"
  shows "buttonText (final (submit v s out)) = buttonText s
     \<and> (if v = Basic
        then inputDisabled (final (submit v s out)) = inputDisabled s
           \<and> inputFocused (final (submit v s out)) = inputFocused s
        else \<not> inputDisabled (final (submit v s out)) \<and> inputFocused (final (submit v s out)))"
proof (cases v)
  case Escaping
  then show ?thesis
    using assms by (simp add: submit_nonempty submitResume_def handlerResume_fields)
next
  case Markdown
  then show ?thesis
    using assms by (simp add: submit_nonempty submitResume_def handlerResume_fields)
next
  case Basic
  then show ?thesis
    using assms basicResume_frame
    by (simp add: submit_nonempty submitResume_def appendChild_def)
qed

theorem restored_after_exchange_witness:
  "trim (inputValue (typed (js ''hola''))) \<noteq> []
   \<and> buttonText (final (submit Escaping (typed (js ''hola'')) Rejected)) = js ''Enviar''
   \<and> \<not> inputDisabled (final (submit Escaping (typed (js ''hola'')) Rejected))
   \<and> inputFocused (final (submit Escaping (typed (js ''hola'')) Rejected))"
  using restored_after_exchange [of "typed (js ''hola'')" Escaping Rejected] hola_nonempty
  by (simp add: typed_def trim_plain)

text \<open>The claim as stated fails in the basic version: the user clicks the button, the
  exchange succeeds, and the input is not focused when the handler ends.\<close>

theorem basic_no_focus_counterexample:
  "trim (inputValue (typed (js ''hola''))) \<noteq> []
   \<and> thrown (submit Basic (typed (js ''hola'')) (Responded True (Json okPayload))) = None
   \<and> \<not> inputFocused (final (submit Basic (typed (js ''hola'')) (Responded True (Json okPayload))))"
  using hola_nonempty
  by (simp add: submit_nonempty typed_def trim_plain submitResume_def basicResume_def
      okPayload_def appendChild_def Let_def)


section \<open>The history alternates\<close>

lemma alternation_append2:
  assumes ev: "even (length h)"
    and alt: "\<forall>i<length h. sender (h ! i) = (if even i then js ''Usuario'' else js ''Bot'')"
  shows "\<forall>i<length (h @ [\<lparr>sender = js ''Usuario'', turnText = a\<rparr>,
                            \<lparr>sender = js ''Bot'', turnText = b\<rparr>]).
           sender ((h @ [\<lparr>sender = js ''Usuario'', turnText = a\<rparr>,
                         \<lparr>sender = js ''Bot'', turnText = b\<rparr>]) ! i)
             = (if even i then js ''Usuario'' else js ''Bot'')"
proof (intro allI impI)
  fix i
  assume "i < length (h @ [\<lparr>sender = js ''Usuario'', turnText = a\<rparr>,
                           \<lparr>sender = js ''Bot'', turnText = b\<rparr>])"
  then consider "i < length h" | "i = length h" | "i = Suc (length h)"
    by fastforce
  then show "sender ((h @ [\<lparr>sender = js ''Usuario'', turnText = a\<rparr>,
                           \<lparr>sender = js ''Bot'', turnText = b\<rparr>]) ! i)
             = (if even i then js ''Usuario'' else js ''Bot'')"
  proof cases
    case 1
    then show ?thesis using alt by (simp add: nth_append)
  next
    case 2
    then show ?thesis using ev by (simp add: nth_append)
  next
    case 3
    then show ?thesis using ev by (simp add: nth_append)
  qed
qed

text \<open>
  C10. In every reachable state, with any number of handlers suspended and resumed in
  any order, the history has even length, its entries at even indices have sender
  \<open>Usuario\<close> and its entries at odd indices have sender \<open>Bot\<close>.
\<close>

theorem history_alternates:
  assumes "reachable v s ps"
  shows "even (length (history s))
     \<and> (\<forall>i<length (history s).
           sender (history s ! i) = (if even i then js ''Usuario'' else js ''Bot''))"
  using assms
proof (induction rule: reachable.induct)
  case (loaded s)
  then show ?case by simp
next
  case (typing s ps t)
  then show ?case by simp
next
  case (focusing s ps b)
  then show ?case by simp
next
  case (returned s ps s1)
  then show ?case using submitBegin_history [of v s s1] by simp
next
  case (failed s ps e s1)
  then show ?case using submitBegin_history [of v s s1 e] by simp
next
  case (requested s ps s1 req l)
  then show ?case using submitBegin_history [of v s s1 _ req l] by simp
next
  case (settled s ps i out)
  show ?case
    using submitResume_history [of v s "ps ! i" out]
  proof
    assume "history (final (submitResume v s (ps ! i) out)) = history s"
    then show ?thesis using settled.IH by simp
  next
    assume "\<exists>d ok. out = Responded ok (Json d) \<and> success d \<and> (v \<noteq> Basic \<longrightarrow> ok) \<and>
        history (final (submitResume v s (ps ! i) out)) =
          history s @ [\<lparr>sender = js ''Usuario'', turnText = Str (msgText (ps ! i))\<rparr>,
                       \<lparr>sender = js ''Bot'', turnText = response d\<rparr>]"
    then obtain d :: payload where h: "history (final (submitResume v s (ps ! i) out)) =
          history s @ [\<lparr>sender = js ''Usuario'', turnText = Str (msgText (ps ! i))\<rparr>,
                       \<lparr>sender = js ''Bot'', turnText = response d\<rparr>]"
      by auto
    show ?thesis
      unfolding h using settled.IH alternation_append2 [of "history s"] by simp
  qed
qed

theorem history_alternates_witness:
  "reachable Escaping
     (final (submit Escaping (typed (js ''hola'')) (Responded True (Json okPayload)))) []
   \<and> history (final (submit Escaping (typed (js ''hola'')) (Responded True (Json okPayload))))
       = [\<lparr>sender = js ''Usuario'', turnText = Str (js ''hola'')\<rparr>,
          \<lparr>sender = js ''Bot'', turnText = Str (js ''ok'')\<rparr>]
   \<and> even (length (history
        (final (submit Escaping (typed (js ''hola'')) (Responded True (Json okPayload))))))
   \<and> sender (history
        (final (submit Escaping (typed (js ''hola'')) (Responded True (Json okPayload)))) ! 0)
       = js ''Usuario''
   \<and> sender (history
        (final (submit Escaping (typed (js ''hola'')) (Responded True (Json okPayload)))) ! 1)
       = js ''Bot''"
proof -
  let ?out = "Responded True (Json okPayload)"
  let ?w = "final (submit Escaping (typed (js ''hola'')) ?out)"
  have ne: "trim (inputValue (typed (js ''hola''))) \<noteq> []"
    using hola_nonempty by (simp add: typed_def trim_plain)
  obtain s1 req l where b: "submitBegin Escaping (typed (js ''hola'')) = Awaiting s1 req l"
    using submitBegin_nonempty [OF ne, of Escaping] by simp
  have r0: "reachable Escaping (typed (js ''hola'')) []"
    by (rule reachable.loaded) (simp_all add: typed_def)
  have r1: "reachable Escaping s1 ([] @ [l])"
    using reachable.requested [OF r0 b] .
  have "reachable Escaping (final (submitResume Escaping s1 (([] @ [l]) ! 0) ?out))
          (take 0 ([] @ [l]) @ drop (Suc 0) ([] @ [l]))"
    by (rule reachable.settled [OF r1]) simp
  then have reach: "reachable Escaping ?w []"
    using b by (simp add: submit_def)
  have hist: "history ?w = [\<lparr>sender = js ''Usuario'', turnText = Str (js ''hola'')\<rparr>,
          \<lparr>sender = js ''Bot'', turnText = Str (js ''ok'')\<rparr>]"
    using submit_success [OF ne, of Escaping True okPayload "js ''ok''"]
    by (simp add: okPayload_def typed_def trim_plain)
  show ?thesis
    using reach hist history_alternates [OF reach] by simp
qed

end
